theory Spec2Isabelle
  imports Main "HOL-Library.Sublist" "HOL-Library.AList"
begin

section \<open>JavaScript values\<close>

text \<open>
  Everything the client reads from the network, and everything the worker catches, is an
  untyped JavaScript value. The values that can come out of \<^verbatim>\<open>JSON.parse\<close> are modelled,
  together with \<^verbatim>\<open>undefined\<close>. A number is an integer (HTTP status codes, poll intervals and
  clock readings are) of a magnitude that JavaScript writes in plain decimal, that is below
  \<open>10\<^sup>2\<^sup>1\<close>; a string is a list of code units. An object is the list of its own
  properties in enumeration order, with distinct keys. An \<^verbatim>\<open>Error\<close> object is the object of
  the properties that can be read from it (\<^verbatim>\<open>message\<close>, \<^verbatim>\<open>stack\<close>, \<^verbatim>\<open>originalError\<close>).
\<close>

datatype jsval =
    Undefined
  | Null
  | Bool bool
  | Num int
  | Str string
  | Arr "jsval list"
  | Obj "(string \<times> jsval) list"

text \<open>
  What a \<^verbatim>\<open>throw\<close> or a rejected promise carries: a \<^verbatim>\<open>TypeError\<close> raised by the
  runtime, the error with which axios rejects a request (its \<^verbatim>\<open>response\<close> is absent when
  the request got no answer), or any value thrown by a collaborator.
\<close>

datatype AxiosResponse = AxiosResponse (status: int) (data: jsval)

datatype thrown =
    TypeError
  | AxiosError "AxiosResponse option"
  | Thrown jsval

fun response :: "thrown \<Rightarrow> AxiosResponse option" where
  "response (AxiosError r) = r"
| "response TypeError = None"
| "response (Thrown v) = None"

fun nullish :: "jsval \<Rightarrow> bool" where
  "nullish Undefined = True"
| "nullish Null = True"
| "nullish v = False"

fun truthy :: "jsval \<Rightarrow> bool" where
  "truthy Undefined = False"
| "truthy Null = False"
| "truthy (Bool b) = b"
| "truthy (Num n) = (n \<noteq> 0)"
| "truthy (Str s) = (s \<noteq> [])"
| "truthy (Arr xs) = True"
| "truthy (Obj kvs) = True"

text \<open>
  Property reads. \<open>field v k\<close> is \<^verbatim>\<open>v.k\<close> for a \<open>v\<close> that is neither \<^verbatim>\<open>null\<close> nor
  \<^verbatim>\<open>undefined\<close>, for the property names this program reads (\<^verbatim>\<open>status\<close>, \<^verbatim>\<open>name\<close>,
  \<^verbatim>\<open>extra\<close>, \<^verbatim>\<open>message\<close>, ...), none of which is defined by a built-in prototype: an
  object answers with its own property, every other value with \<^verbatim>\<open>undefined\<close>.
  \<open>get_prop\<close> is the plain read \<^verbatim>\<open>v.k\<close>, which raises a TypeError on \<^verbatim>\<open>null\<close> and
  \<^verbatim>\<open>undefined\<close>; \<open>opt_prop\<close> is the optional chain \<^verbatim>\<open>v?.k\<close>.
\<close>

fun field :: "jsval \<Rightarrow> string \<Rightarrow> jsval" where
  "field (Obj kvs) k = (case map_of kvs k of Some v \<Rightarrow> v | None \<Rightarrow> Undefined)"
| "field v k = Undefined"

definition get_prop :: "jsval \<Rightarrow> string \<Rightarrow> thrown + jsval" where
  "get_prop v k = (if nullish v then Inl TypeError else Inr (field v k))"

definition opt_prop :: "jsval \<Rightarrow> string \<Rightarrow> jsval" where
  "opt_prop v k = (if nullish v then Undefined else field v k)"

subsection \<open>Conversion to string\<close>

function show_nat :: "nat \<Rightarrow> string" where
  "show_nat n =
     (if n < 10 then [''0123456789'' ! n]
      else show_nat (n div 10) @ [''0123456789'' ! (n mod 10)])"
  by pat_completeness auto
termination
  by (relation "measure id") auto

definition show_int :: "int \<Rightarrow> string" where
  "show_int i = (if i < 0 then CHR ''-'' # show_nat (nat (- i)) else show_nat (nat i))"

text \<open>
  \<open>to_string\<close> is the conversion a template literal or a string concatenation applies to
  an interpolated value. An array converts through \<^verbatim>\<open>Array.prototype.join\<close>, which writes
  \<^verbatim>\<open>null\<close> and \<^verbatim>\<open>undefined\<close> elements as the empty string. A parsed object has no callable
  property of its own, so it converts through \<^verbatim>\<open>Object.prototype.toString\<close>, unless an own
  property named \<^verbatim>\<open>toString\<close> hides that method: then no conversion is left and the
  runtime raises a TypeError.
\<close>

fun to_string :: "jsval \<Rightarrow> thrown + string"
  and join_elems :: "string \<Rightarrow> jsval list \<Rightarrow> thrown + string"
where
  "to_string Undefined = Inr ''undefined''"
| "to_string Null = Inr ''null''"
| "to_string (Bool b) = Inr (if b then ''true'' else ''false'')"
| "to_string (Num n) = Inr (show_int n)"
| "to_string (Str s) = Inr s"
| "to_string (Arr xs) = join_elems '','' xs"
| "to_string (Obj kvs) =
     (if ''toString'' \<in> fst ` set kvs then Inl TypeError else Inr ''[object Object]'')"
| "join_elems sep [] = Inr []"
| "join_elems sep (x # xs) =
     (case (if nullish x then Inr [] else to_string x) of
        Inl e \<Rightarrow> Inl e
      | Inr s \<Rightarrow>
          (if xs = [] then Inr s
           else (case join_elems sep xs of Inl e \<Rightarrow> Inl e | Inr r \<Rightarrow> Inr (s @ sep @ r))))"

text \<open>
  The values on which the conversion succeeds: all of them but the objects with an own
  property named \<^verbatim>\<open>toString\<close>, and the arrays that hold such an object at any depth.
\<close>

fun convertible :: "jsval \<Rightarrow> bool" where
  "convertible (Arr xs) = list_all convertible xs"
| "convertible (Obj kvs) = (''toString'' \<notin> fst ` set kvs)"
| "convertible v = True"

text \<open>
  The method call \<^verbatim>\<open>v.join(sep)\<close>: only an array has a callable \<^verbatim>\<open>join\<close>. Reading the
  property of \<^verbatim>\<open>null\<close> or \<^verbatim>\<open>undefined\<close> raises a TypeError, and so does calling what any
  other parsed value answers for \<^verbatim>\<open>join\<close> (\<^verbatim>\<open>undefined\<close>, or an own property that is
  not a function).
\<close>

fun call_join :: "jsval \<Rightarrow> string \<Rightarrow> thrown + string" where
  "call_join (Arr xs) sep = join_elems sep xs"
| "call_join v sep = Inl TypeError"

subsection \<open>Serialisation\<close>

text \<open>
  \<^verbatim>\<open>JSON.stringify\<close> on these values. It answers \<^verbatim>\<open>undefined\<close> (here \<open>None\<close>) for
  \<^verbatim>\<open>undefined\<close>, writes \<^verbatim>\<open>null\<close> for an undefined array element and leaves an undefined
  property out. Strings are quoted, with the quote, the backslash and the control
  characters escaped.
\<close>

definition json_escape :: "char \<Rightarrow> string" where
  "json_escape c =
     (if c = CHR 0x22 then [CHR 0x5C, CHR 0x22]
      else if c = CHR 0x5C then [CHR 0x5C, CHR 0x5C]
      else if c = CHR 0x08 then [CHR 0x5C, CHR ''b'']
      else if c = CHR 0x0C then [CHR 0x5C, CHR ''f'']
      else if c = CHR 0x0A then [CHR 0x5C, CHR ''n'']
      else if c = CHR 0x0D then [CHR 0x5C, CHR ''r'']
      else if c = CHR 0x09 then [CHR 0x5C, CHR ''t'']
      else if (of_char c :: nat) < 32 then
        [CHR 0x5C, CHR ''u'', CHR ''0'', CHR ''0'',
         ''0123456789abcdef'' ! (of_char c div 16), ''0123456789abcdef'' ! (of_char c mod 16)]
      else [c])"

definition json_quote :: "string \<Rightarrow> string" where
  "json_quote s = CHR 0x22 # concat (map json_escape s) @ [CHR 0x22]"

fun comma_sep :: "string list \<Rightarrow> string" where
  "comma_sep [] = []"
| "comma_sep [s] = s"
| "comma_sep (s # t # ts) = s @ '','' @ comma_sep (t # ts)"

fun JSON_stringify :: "jsval \<Rightarrow> string option"
  and stringify_elems :: "jsval list \<Rightarrow> string list"
  and stringify_props :: "(string \<times> jsval) list \<Rightarrow> string list"
where
  "JSON_stringify Undefined = None"
| "JSON_stringify Null = Some ''null''"
| "JSON_stringify (Bool b) = Some (if b then ''true'' else ''false'')"
| "JSON_stringify (Num n) = Some (show_int n)"
| "JSON_stringify (Str s) = Some (json_quote s)"
| "JSON_stringify (Arr xs) = Some (''['' @ comma_sep (stringify_elems xs) @ '']'')"
| "JSON_stringify (Obj kvs) = Some (''{'' @ comma_sep (stringify_props kvs) @ ''}'')"
| "stringify_elems [] = []"
| "stringify_elems (x # xs) =
     (case JSON_stringify x of None \<Rightarrow> ''null'' | Some s \<Rightarrow> s) # stringify_elems xs"
| "stringify_props [] = []"
| "stringify_props (kv # kvs) =
     (case JSON_stringify (snd kv) of
        None \<Rightarrow> stringify_props kvs
      | Some s \<Rightarrow> (json_quote (fst kv) @ '':'' @ s) # stringify_props kvs)"

section \<open>The client's world: clock, network, timers, console\<close>

text \<open>
  The client reads the clock (\<^verbatim>\<open>Date.now()\<close>, milliseconds), sends HTTP requests through
  axios, sleeps on a timer and writes warnings to the console. The world holds the clock,
  a script of what the network will do with the coming requests (how long each takes and
  the response, if any), a script of how late each coming timer fires, and the logs of the
  requests sent and of the warnings written. Time passes only while a request or a timer is
  awaited. A request for which the script has no entry is never answered.
\<close>

record net_event =
  latency :: nat
  reply :: "AxiosResponse option"

record world =
  now :: int
  net :: "net_event list"
  lags :: "nat list"
  requests :: "(string \<times> string) list"
  warnings :: "(string \<times> jsval) list"

text \<open>
  axios resolves with the response when its status is 2xx, and rejects otherwise: with an
  error carrying the response when there is one, with an error without response when the
  request got no answer.
\<close>

definition axios_request ::
  "string \<Rightarrow> string \<Rightarrow> world \<Rightarrow> ((thrown + AxiosResponse) \<times> world) option" where
  "axios_request method url w =
     (case net w of
        [] \<Rightarrow> None
      | ev # rest \<Rightarrow>
          Some ((case reply ev of
                   None \<Rightarrow> Inl (AxiosError None)
                 | Some r \<Rightarrow>
                     if 200 \<le> status r \<and> status r < 300 then Inr r
                     else Inl (AxiosError (Some r))),
                w\<lparr>now := now w + int (latency ev), net := rest,
                  requests := requests w @ [(method, url)]\<rparr>))"

text \<open>
  \<^verbatim>\<open>sleep(ms)\<close> awaits \<^verbatim>\<open>setTimeout(resolve, ms)\<close>. A timer fires no earlier than its delay;
  a delay that is not a number between 0 and \<open>2\<^sup>3\<^sup>1 - 1\<close> guarantees no waiting at all.
  How much later than that the timer fires is the next entry of \<open>lags\<close> (0 when the
  script is exhausted).
\<close>

fun timer_delay :: "jsval \<Rightarrow> int" where
  "timer_delay (Num n) = (if 0 \<le> n \<and> n \<le> 2147483647 then n else 0)"
| "timer_delay v = 0"

definition sleep_duration :: "jsval \<Rightarrow> world \<Rightarrow> int" where
  "sleep_duration ms w = timer_delay ms + int (case lags w of [] \<Rightarrow> 0 | l # ls \<Rightarrow> l)"

definition sleep :: "jsval \<Rightarrow> world \<Rightarrow> world" where
  "sleep ms w = w\<lparr>now := now w + sleep_duration ms w, lags := tl (lags w)\<rparr>"

text \<open>The world at time 0 with a given network script, punctual timers and empty logs.\<close>

definition world0 :: "net_event list \<Rightarrow> world" where
  "world0 script = \<lparr>now = 0, net = script, lags = [], requests = [], warnings = []\<rparr>"

section \<open>The client: \<^verbatim>\<open>get-package-docs.ts\<close>\<close>

datatype PackageDocsResponse =
    Success
  | Failure (errorCode: jsval) (errorMessage: string)

definition POLL_TIMEOUT :: int where
  "POLL_TIMEOUT = 200000"

subsection \<open>\<^verbatim>\<open>getErrorMessage\<close>\<close>

definition package_not_found_message :: string where
  "package_not_found_message =
     ''This package could not be found on the npm registry. Did you get the name right?''"

definition version_mismatch_lead :: string where
  "version_mismatch_lead =
     ''The given version for this package was not found on the npm registry.''
     @ [CHR 0x0A] @ '' Found versions: '' @ [CHR 0x0A]"

definition type_resolve_message :: string where
  "type_resolve_message =
     ''Failed to resolve types for this package. ''
     @ ''This package likely does not ship with types, and it does not have a corresponding package `@types` package ''
     @ ''from which reference documentation for its APIs can be built.''"

definition typedoc_head :: string where
  "typedoc_head =
     ''Failed to generate documentation for this package. <br /> '' @ [CHR 0x0A]
     @ ''            <details>'' @ [CHR 0x0A]
     @ ''              <summary>See stack trace</summary>'' @ [CHR 0x0A]
     @ ''              <pre>'' @ [CHR 0x0A]
     @ ''                <code><b>''"

definition typedoc_tail :: string where
  "typedoc_tail =
     ''</code>'' @ [CHR 0x0A]
     @ ''              </pre>'' @ [CHR 0x0A]
     @ ''            </details>''"

text \<open>
  The argument is the object the caller passes: a literal with the properties
  \<^verbatim>\<open>name\<close>, \<^verbatim>\<open>extra\<close> and \<^verbatim>\<open>errorStack\<close>, or the body of an error response as it came.
  The \<^verbatim>\<open>switch\<close> compares \<^verbatim>\<open>error.name\<close> with \<^verbatim>\<open>===\<close>. In the last case the source
  interpolates \<^verbatim>\<open>"\n" + error.errorStack || ""\<close>, where \<^verbatim>\<open>+\<close> binds tighter than
  \<^verbatim>\<open>||\<close>: the concatenation is made first, and the empty string stands in only for an
  empty concatenation.
\<close>

definition getErrorMessage :: "jsval \<Rightarrow> world \<Rightarrow> (thrown + string) \<times> world" where
  "getErrorMessage error w =
     (case get_prop error ''name'' of
        Inl e \<Rightarrow> (Inl e, w)
      | Inr name \<Rightarrow>
          if name = Str ''PackageNotFoundError'' then (Inr package_not_found_message, w)
          else if name = Str ''PackageVersionMismatchError'' then
            (case call_join (field error ''extra'') '', '' of
               Inl e \<Rightarrow> (Inl e, w)
             | Inr versions \<Rightarrow> (Inr (version_mismatch_lead @ versions), w))
          else if name = Str ''TypeDefinitionResolveError'' then (Inr type_resolve_message, w)
          else if name = Str ''TypeDocBuildError'' then
            (case to_string (field error ''extra'') of
               Inl e \<Rightarrow> (Inl e, w)
             | Inr extra \<Rightarrow>
                 (case to_string (field error ''errorStack'') of
                    Inl e \<Rightarrow> (Inl e, w)
                  | Inr stack \<Rightarrow>
                      (let s = [CHR 0x0A] @ stack
                       in (Inr (typedoc_head @ extra @ ''</b>''
                                @ (if truthy (Str s) then s else []) @ typedoc_tail), w))))
          else
            (Inr [],
             w\<lparr>warnings := warnings w @ [(''Could not get error message for error: '', error)]\<rparr>))"

subsection \<open>\<^verbatim>\<open>pollQueue\<close>\<close>

definition timeout_message :: string where
  "timeout_message =
     ''Building docs took longer than expected. Check back in sometime to see if the load on the server has reduced? If this persists, file an issue.''"

definition removed_from_queue_message :: string where
  "removed_from_queue_message =
     ''Building docs for this package failed, because the job to build the docs was removed from queue.''"

definition unknown_status_lead :: string where
  "unknown_status_lead = ''Failed because the polling API returned an unknown status: ''"

text \<open>
  The expression awaited in the \<^verbatim>\<open>try\<close> block: the URL template is evaluated, then the
  request is sent.
\<close>

definition poll_request ::
  "jsval \<Rightarrow> world \<Rightarrow> ((thrown + AxiosResponse) \<times> world) option" where
  "poll_request jobId w =
     (case to_string jobId of
        Inl e \<Rightarrow> Some (Inl e, w)
      | Inr s \<Rightarrow> axios_request ''GET'' (''/api/docs/poll/'' @ s) w)"

text \<open>The message computed in the \<^verbatim>\<open>catch\<close> block.\<close>

definition poll_catch_message :: "thrown \<Rightarrow> string" where
  "poll_catch_message err =
     (case response err of
        None \<Rightarrow> []
      | Some r \<Rightarrow>
          if status r = 404 then removed_from_queue_message
          else show_int (status r) @ '' ''
               @ (if truthy (data r)
                  then (case JSON_stringify (data r) of None \<Rightarrow> ''undefined'' | Some s \<Rightarrow> s)
                  else []))"

text \<open>
  The result is \<open>None\<close> when the promise never settles (a request is never answered),
  \<open>Some (Inl e, w')\<close> when it rejects with \<open>e\<close> and \<open>Some (Inr r, w')\<close> when it resolves
  with \<open>r\<close>, in the world \<open>w'\<close>.
\<close>

function pollQueue ::
  "jsval \<Rightarrow> jsval \<Rightarrow> int \<Rightarrow> world \<Rightarrow> ((thrown + PackageDocsResponse) \<times> world) option" where
  "pollQueue jobId pollInterval timeElapsed w =
     (if timeElapsed > POLL_TIMEOUT
      then Some (Inr (Failure (Str ''DocsBuildTimeout'') timeout_message), w)
      else
        (let start = now w in
         (case poll_request jobId w of
            None \<Rightarrow> None
          | Some (Inl err, w1) \<Rightarrow>
              Some (Inr (Failure (Str ''UNEXPECTED_DOCS_POLL_FAILURE'') (poll_catch_message err)), w1)
          | Some (Inr pollResponse, w1) \<Rightarrow>
              (case get_prop (data pollResponse) ''status'' of
                 Inl e \<Rightarrow> Some (Inl e, w1)
               | Inr status' \<Rightarrow>
                   if status' = Str ''success'' then Some (Inr Success, w1)
                   else if status' = Str ''queued'' then
                     (let w2 = sleep pollInterval w1
                      in pollQueue jobId pollInterval (timeElapsed + now w2 - start) w2)
                   else if status' = Str ''failed'' then
                     (case getErrorMessage
                             (Obj [(''name'', field (data pollResponse) ''errorCode''),
                                   (''extra'', field (data pollResponse) ''errorMessage''),
                                   (''errorStack'', field (data pollResponse) ''errorStack'')]) w1 of
                        (Inl e, w2) \<Rightarrow> Some (Inl e, w2)
                      | (Inr m, w2) \<Rightarrow>
                          Some (Inr (Failure (field (data pollResponse) ''errorCode'') m), w2))
                   else
                     (case to_string status' of
                        Inl e \<Rightarrow> Some (Inl e, w1)
                      | Inr s \<Rightarrow>
                          Some (Inr (Failure (Str ''UNEXPECTED_DOCS_POLL_STATUS'')
                                       (unknown_status_lead @ s)), w1))))))"
  by pat_completeness auto
termination
  by (relation "measure (\<lambda>(jobId, pollInterval, timeElapsed, w). length (net w))")
     (auto simp: poll_request_def axios_request_def sleep_def split: sum.splits list.splits)

declare pollQueue.simps [simp del]

subsection \<open>\<^verbatim>\<open>getPackageDocs\<close> and \<^verbatim>\<open>getPackageDocsSync\<close>\<close>

text \<open>\<open>response_data err\<close> is the optional chain \<^verbatim>\<open>err.response?.data\<close>.\<close>

definition response_data :: "thrown \<Rightarrow> jsval" where
  "response_data err = (case response err of None \<Rightarrow> Undefined | Some r \<Rightarrow> data r)"

definition getPackageDocs ::
  "string \<Rightarrow> string \<Rightarrow> bool \<Rightarrow> world \<Rightarrow> ((thrown + PackageDocsResponse) \<times> world) option" where
  "getPackageDocs pkg pkgVersion force w =
     (let withForce = (if force then ''?force=true'' else [])
      in (case axios_request ''POST''
                 (''/api/docs/trigger/''
                  @ (if pkgVersion \<noteq> [] then pkg @ ''/'' @ pkgVersion else pkg) @ withForce) w of
            None \<Rightarrow> None
          | Some (Inl err, w1) \<Rightarrow>
              if truthy (response_data err) then
                (case getErrorMessage (response_data err) w1 of
                   (Inl e, w2) \<Rightarrow> Some (Inl e, w2)
                 | (Inr m, w2) \<Rightarrow> Some (Inr (Failure (field (response_data err) ''name'') m), w2))
              else Some (Inr (Failure (Str ''UNEXPECTED_DOCS_TRIGGER_FAILURE'') []), w1)
          | Some (Inr triggerResponse, w1) \<Rightarrow>
              (let triggerResult = data triggerResponse
               in (case get_prop triggerResult ''status'' of
                     Inl e \<Rightarrow> Some (Inl e, w1)
                   | Inr status' \<Rightarrow>
                       if status' = Str ''success'' then Some (Inr Success, w1)
                       else if status' = Str ''queued'' then
                         pollQueue (field triggerResult ''jobId'')
                           (field triggerResult ''pollInterval'') 0 w1
                       else
                         (case to_string status' of
                            Inl e \<Rightarrow> Some (Inl e, w1)
                          | Inr s \<Rightarrow>
                              Some (Inr (Failure (Str ''UNEXPECTED_DOCS_TRIGGER_STATUS'')
                                           (unknown_status_lead @ s)), w1))))))"

definition getPackageDocsSync ::
  "string \<Rightarrow> string \<Rightarrow> bool \<Rightarrow> world \<Rightarrow> ((thrown + PackageDocsResponse) \<times> world) option" where
  "getPackageDocsSync pkg pkgVersion force w =
     (let withForce = (if force then ''?force=true'' else [])
      in (case axios_request ''POST''
                 (''/api/docs/build/''
                  @ (if pkgVersion \<noteq> [] then pkg @ ''/'' @ pkgVersion else pkg) @ withForce) w of
            None \<Rightarrow> None
          | Some (Inl err, w1) \<Rightarrow>
              if truthy (response_data err) then
                (case getErrorMessage (response_data err) w1 of
                   (Inl e, w2) \<Rightarrow> Some (Inl e, w2)
                 | (Inr m, w2) \<Rightarrow> Some (Inr (Failure (field (response_data err) ''name'') m), w2))
              else Some (Inr (Failure (Str ''UNEXPECTED_DOCS_TRIGGER_FAILURE'') []), w1)
          | Some (Inr triggerResponse, w1) \<Rightarrow>
              (let triggerResult = data triggerResponse
               in (case get_prop triggerResult ''status'' of
                     Inl e \<Rightarrow> Some (Inl e, w1)
                   | Inr status' \<Rightarrow>
                       if status' = Str ''success'' then Some (Inr Success, w1)
                       else
                         (case getErrorMessage
                                 (Obj [(''name'', field triggerResult ''errorCode''),
                                       (''extra'', field triggerResult ''errorMessage''),
                                       (''errorStack'', field triggerResult ''errorStack'')]) w1 of
                            (Inl e, w2) \<Rightarrow> Some (Inl e, w2)
                          | (Inr m, w2) \<Rightarrow>
                              Some (Inr (Failure (field triggerResult ''errorCode'') m), w2))))))"

text \<open>\<^verbatim>\<open>String.prototype.includes\<close>, for statements about message fragments.\<close>

fun str_includes :: "string \<Rightarrow> string \<Rightarrow> bool" where
  "str_includes [] sub = (sub = [])"
| "str_includes (c # cs) sub = (prefix sub (c # cs) \<or> str_includes cs sub)"

section \<open>The worker: \<^verbatim>\<open>docs-builder-worker.js\<close>\<close>

text \<open>
  The module keeps \<^verbatim>\<open>workerActiveTime\<close>, set to the clock when the module is loaded. The
  process state holds it with the clock, the exit code once \<^verbatim>\<open>process.exit\<close> was called and
  the console output.
\<close>

record worker =
  clock :: int
  workerActiveTime :: int
  exit_code :: "int option"
  console :: "string list"


text \<open>The callback of \<^verbatim>\<open>setInterval\<close>, run at each tick of the timer.\<close>

definition watchdog :: "worker \<Rightarrow> worker" where
  "watchdog s =
     (if clock s - workerActiveTime s > 1000 * 60 * 5
      then s\<lparr>console := console s @ [''Worker remained idle for too long, dying.''],
             exit_code := Some 1\<rparr>
      else s)"

text \<open>
  A job holds its data, an object, which \<^verbatim>\<open>job.updateData\<close> replaces. The spread
  \<^verbatim>\<open>{...job.data, originalError: v}\<close> keeps every property of the data, and sets
  \<^verbatim>\<open>originalError\<close>: in place when the data has it, at the end otherwise.
\<close>

record job =
  jobData :: "(string \<times> jsval) list"

definition updateData :: "(string \<times> jsval) list \<Rightarrow> job \<Rightarrow> job" where
  "updateData d j = j\<lparr>jobData := d\<rparr>"

text \<open>
  The job handler. The build function \<^verbatim>\<open>generateDocsForPackage\<close> is a parameter: given
  the package and the options it answers how long the build takes and how it ends, with
  the value thrown (\<open>Inl\<close>) or the docs built (\<open>Inr\<close>).
\<close>

definition handler ::
  "(jsval \<Rightarrow> jsval \<Rightarrow> nat \<times> (jsval + jsval)) \<Rightarrow> job \<Rightarrow> worker
     \<Rightarrow> (thrown + jsval) \<times> job \<times> worker" where
  "handler generateDocsForPackage j s =
     (let s1 = s\<lparr>workerActiveTime := clock s\<rparr>
      in (case generateDocsForPackage (field (Obj (jobData j)) ''packageJSON'')
                 (Obj [(''force'', field (Obj (jobData j)) ''force'')]) of
            (d, Inr docs) \<Rightarrow> (Inr docs, j, s1\<lparr>clock := clock s1 + int d\<rparr>)
          | (d, Inl err) \<Rightarrow>
              (let s2 = s1\<lparr>clock := clock s1 + int d\<rparr>
               in (case get_prop err ''message'' of
                     Inl e \<Rightarrow> (Inl e, j, s2)
                   | Inr code \<Rightarrow>
                       (Inl (Thrown err),
                        updateData
                          (AList.update ''originalError''
                             (Obj [(''code'', code),
                                   (''stacktrace'', opt_prop (opt_prop err ''originalError'') ''stack''),
                                   (''message'', opt_prop (opt_prop err ''originalError'') ''message'')])
                             (jobData j)) j,
                        s2)))))"

section \<open>Properties of the conversions\<close>

lemma to_string_convertible:
  "convertible v \<Longrightarrow> \<exists>s. to_string v = Inr s"
  "list_all convertible xs \<Longrightarrow> \<exists>s. join_elems sep xs = Inr s"
proof (induction v and sep xs rule: to_string_join_elems.induct)
  case (9 sep x xs)
  then show ?case by (cases "nullish x"; cases "xs = []") auto
qed auto

lemma convertible_to_string:
  "to_string v = Inr s \<Longrightarrow> convertible v"
  "join_elems sep xs = Inr s \<Longrightarrow> list_all convertible xs"
proof (induction v and sep xs arbitrary: s and s rule: to_string_join_elems.induct)
  case (9 sep x xs)
  then show ?case
    by (cases "nullish x"; cases "xs = []"; cases x) (auto split: sum.splits if_splits)
qed (auto split: if_splits)

lemma convertible_iff: "convertible v \<longleftrightarrow> (\<exists>s. to_string v = Inr s)"
  using to_string_convertible(1) convertible_to_string(1) by blast

lemma str_includes_append: "str_includes (a @ sub @ b) sub"
proof (induction a)
  case Nil
  show ?case
  proof (cases "sub @ b")
    case Nil
    then show ?thesis by simp
  next
    case (Cons c cs)
    have "prefix sub (sub @ b)" by simp
    with Cons show ?thesis by simp
  qed
qed simp

lemma JSON_stringify_None_iff: "JSON_stringify v = None \<longleftrightarrow> v = Undefined"
  by (cases v) auto

section \<open>Properties of \<^verbatim>\<open>getErrorMessage\<close>\<close>

lemma getErrorMessage_value_world:
  "fst (getErrorMessage error w) = fst (getErrorMessage error w')"
  by (simp add: getErrorMessage_def split: sum.splits)

text \<open>
  For \<^verbatim>\<open>TypeDocBuildError\<close> the message embeds \<^verbatim>\<open>extra\<close>, and after it a line break and
  the text of the stack, whatever the stack is: the concatenation is never empty, so the
  alternative \<^verbatim>\<open>""\<close> is never taken.
\<close>

lemma getErrorMessage_typedoc_message:
  assumes "to_string extra = Inr e" and "to_string stack = Inr t"
  shows "getErrorMessage
           (Obj [(''name'', Str ''TypeDocBuildError''), (''extra'', extra), (''errorStack'', stack)]) w
           = (Inr (typedoc_head @ e @ ''</b>'' @ [CHR 0x0A] @ t @ typedoc_tail), w)"
  using assms by (simp add: getErrorMessage_def get_prop_def)

subsection \<open>Totality\<close>

text \<open>
  C3, as stated, on a malformed \<^verbatim>\<open>extra\<close>. For \<^verbatim>\<open>PackageVersionMismatchError\<close> with a
  string in \<^verbatim>\<open>extra\<close>, \<^verbatim>\<open>error.extra.join\<close> is not a function: the call raises a TypeError
  and \<open>getErrorMessage\<close> returns no string.
\<close>

theorem getErrorMessage_throws_counterexample:
  "getErrorMessage
     (Obj [(''name'', Str ''PackageVersionMismatchError''), (''extra'', Str ''1.0.0''),
           (''errorStack'', Undefined)]) (world0 [])
     = (Inl TypeError, world0 [])"
  by (simp add: getErrorMessage_def get_prop_def)

text \<open>
  A non-array \<^verbatim>\<open>extra\<close> is not the only argument on which the function throws: it
  interpolates \<^verbatim>\<open>extra\<close> and the stack for \<^verbatim>\<open>TypeDocBuildError\<close>, and the elements of
  \<^verbatim>\<open>extra\<close> for \<^verbatim>\<open>PackageVersionMismatchError\<close>, and a value that does not convert to a
  string raises a TypeError there.
\<close>

lemma getErrorMessage_unconvertible_extra:
  "getErrorMessage
     (Obj [(''name'', Str ''TypeDocBuildError''), (''extra'', Obj [(''toString'', Num 1)]),
           (''errorStack'', Undefined)]) (world0 [])
     = (Inl TypeError, world0 [])"
  "getErrorMessage
     (Obj [(''name'', Str ''PackageVersionMismatchError''),
           (''extra'', Arr [Str ''1.0.0'', Obj [(''toString'', Num 1)]]),
           (''errorStack'', Undefined)]) (world0 [])
     = (Inl TypeError, world0 [])"
  by (simp_all add: getErrorMessage_def get_prop_def)

text \<open>
  C3, amended: \<open>getErrorMessage\<close> returns a string and does not throw, for every name,
  \<^verbatim>\<open>extra\<close> and stack, provided that \<^verbatim>\<open>extra\<close> is an array of values that convert to
  strings when the name is \<^verbatim>\<open>PackageVersionMismatchError\<close>, and that \<^verbatim>\<open>extra\<close> and the
  stack convert to strings when the name is \<^verbatim>\<open>TypeDocBuildError\<close>. For every other name
  nothing is asked of \<^verbatim>\<open>extra\<close> and the stack.
\<close>

theorem getErrorMessage_returns:
  assumes "name = Str ''PackageVersionMismatchError'' \<longrightarrow> (\<exists>xs. extra = Arr xs) \<and> convertible extra"
    and "name = Str ''TypeDocBuildError'' \<longrightarrow> convertible extra \<and> convertible stack"
  shows "\<exists>m. fst (getErrorMessage
                    (Obj [(''name'', name), (''extra'', extra), (''errorStack'', stack)]) w) = Inr m"
proof -
  consider (pvm) "name = Str ''PackageVersionMismatchError''"
    | (tdb) "name = Str ''TypeDocBuildError''"
    | (other) "name \<noteq> Str ''PackageVersionMismatchError''" "name \<noteq> Str ''TypeDocBuildError''"
    by blast
  then show ?thesis
  proof cases
    case pvm
    with assms(1) obtain xs where xs: "extra = Arr xs" "list_all convertible xs" by auto
    from to_string_convertible(2) [OF xs(2)] obtain s where "join_elems '', '' xs = Inr s" by blast
    with pvm xs show ?thesis by (simp add: getErrorMessage_def get_prop_def)
  next
    case tdb
    with assms(2) obtain e t where "to_string extra = Inr e" "to_string stack = Inr t"
      using to_string_convertible(1) by blast
    with tdb show ?thesis by (simp add: getErrorMessage_def get_prop_def)
  next
    case other
    then show ?thesis by (simp add: getErrorMessage_def get_prop_def)
  qed
qed

theorem getErrorMessage_returns_witness:
  "fst (getErrorMessage
          (Obj [(''name'', Str ''PackageVersionMismatchError''),
                (''extra'', Arr [Str ''1.0.0'', Str ''2.0.0'']),
                (''errorStack'', Undefined)]) (world0 []))
     = Inr (version_mismatch_lead @ ''1.0.0, 2.0.0'')"
  using getErrorMessage_returns
          [of "Str ''PackageVersionMismatchError''" "Arr [Str ''1.0.0'', Str ''2.0.0'']" Undefined
              "world0 []"]
  by (simp add: getErrorMessage_def get_prop_def)

subsection \<open>The stack in the message\<close>

text \<open>
  C4, at an absent stack. For \<^verbatim>\<open>TypeDocBuildError\<close> with \<^verbatim>\<open>extra = "boom"\<close> and no stack,
  the message embeds \<^verbatim>\<open>extra\<close>, and after it a line break and the text \<^verbatim>\<open>undefined\<close>:
  the message contains the literal fragment that the fallback \<^verbatim>\<open>|| ""\<close> of the source
  was written to avoid.
\<close>

theorem getErrorMessage_typedoc_absent_stack:
  "getErrorMessage
     (Obj [(''name'', Str ''TypeDocBuildError''), (''extra'', Str ''boom''),
           (''errorStack'', Undefined)]) (world0 [])
     = (Inr (typedoc_head @ ''boom</b>'' @ [CHR 0x0A] @ ''undefined'' @ typedoc_tail), world0 [])
   \<and> str_includes (typedoc_head @ ''boom</b>'' @ [CHR 0x0A] @ ''undefined'' @ typedoc_tail)
        ''undefined''"
proof
  show "getErrorMessage
     (Obj [(''name'', Str ''TypeDocBuildError''), (''extra'', Str ''boom''),
           (''errorStack'', Undefined)]) (world0 [])
     = (Inr (typedoc_head @ ''boom</b>'' @ [CHR 0x0A] @ ''undefined'' @ typedoc_tail), world0 [])"
    by (simp add: getErrorMessage_def get_prop_def)
  have "str_includes ((typedoc_head @ ''boom</b>'' @ [CHR 0x0A]) @ ''undefined'' @ typedoc_tail)
          ''undefined''"
    by (rule str_includes_append)
  then show "str_includes (typedoc_head @ ''boom</b>'' @ [CHR 0x0A] @ ''undefined'' @ typedoc_tail)
          ''undefined''"
    by simp
qed

subsection \<open>Unknown codes\<close>

text \<open>
  C8: for every argument whose \<^verbatim>\<open>name\<close> is none of the four recognised codes,
  \<open>getErrorMessage\<close> returns the empty string, does not throw, and writes one warning
  that carries the argument.
\<close>

theorem getErrorMessage_unknown_code:
  assumes "\<not> nullish error"
    and "field error ''name'' \<notin> {Str ''PackageNotFoundError'', Str ''PackageVersionMismatchError'',
                                   Str ''TypeDefinitionResolveError'', Str ''TypeDocBuildError''}"
  shows "getErrorMessage error w
           = (Inr [], w\<lparr>warnings := warnings w
                          @ [(''Could not get error message for error: '', error)]\<rparr>)"
  using assms by (simp add: getErrorMessage_def get_prop_def)

theorem getErrorMessage_unknown_code_witness:
  "getErrorMessage (Obj [(''name'', Str ''SomethingElse''), (''extra'', Num 3)]) (world0 [])
     = (Inr [],
        \<lparr>now = 0, net = [], lags = [], requests = [],
         warnings = [(''Could not get error message for error: '',
                      Obj [(''name'', Str ''SomethingElse''), (''extra'', Num 3)])]\<rparr>)"
  using getErrorMessage_unknown_code
          [of "Obj [(''name'', Str ''SomethingElse''), (''extra'', Num 3)]" "world0 []"]
  by (simp add: world0_def)

section \<open>Properties of the poll loop\<close>

lemma field_not_nullish: "field v k \<noteq> Undefined \<Longrightarrow> \<not> nullish v"
  by (cases v) auto

lemma poll_request_sent:
  "to_string jobId = Inr s \<Longrightarrow> net w = ev # rest \<Longrightarrow>
     poll_request jobId w =
       Some ((case reply ev of
                None \<Rightarrow> Inl (AxiosError None)
              | Some r \<Rightarrow> if 200 \<le> status r \<and> status r < 300 then Inr r else Inl (AxiosError (Some r))),
             w\<lparr>now := now w + int (latency ev), net := rest,
               requests := requests w @ [(''GET'', ''/api/docs/poll/'' @ s)]\<rparr>)"
  by (simp add: poll_request_def axios_request_def)

subsection \<open>The timeout budget\<close>

text \<open>
  C1, as stated, at the boundary. With exactly 200000 ms elapsed the guard
  \<^verbatim>\<open>timeElapsed > POLL_TIMEOUT\<close> does not fire: the status query is sent, and here it is
  answered with \<^verbatim>\<open>success\<close>, which is what \<open>pollQueue\<close> returns.
\<close>

theorem pollQueue_at_budget_counterexample:
  "pollQueue (Str ''J1'') (Num 1000) 200000 (world0 [\<lparr>latency = 5, reply = Some (AxiosResponse 200 (Obj [(''status'', Str ''success'')]))\<rparr>])
     = Some (Inr Success,
             \<lparr>now = 5, net = [], lags = [],
              requests = [(''GET'', ''/api/docs/poll/J1'')], warnings = []\<rparr>)"
  by (simp add: pollQueue.simps POLL_TIMEOUT_def poll_request_def axios_request_def world0_def
      get_prop_def)

text \<open>
  C1, amended: whenever the elapsed time is strictly greater than 200000 ms, \<open>pollQueue\<close>
  returns the failure with code \<^verbatim>\<open>DocsBuildTimeout\<close> and the fixed message, and leaves the
  world as it was: no request is sent and no time passes.
\<close>

theorem pollQueue_timeout:
  "200000 < timeElapsed \<Longrightarrow>
     pollQueue jobId pollInterval timeElapsed w
       = Some (Inr (Failure (Str ''DocsBuildTimeout'') timeout_message), w)"
  by (simp add: pollQueue.simps POLL_TIMEOUT_def)

theorem pollQueue_timeout_witness:
  "(200000::int) < 200001 \<and>
   pollQueue (Str ''J1'') (Num 1000) 200001 (world0 [\<lparr>latency = 5, reply = Some (AxiosResponse 200 (Obj [(''status'', Str ''success'')]))\<rparr>])
     = Some (Inr (Failure (Str ''DocsBuildTimeout'') timeout_message),
             world0 [\<lparr>latency = 5, reply = Some (AxiosResponse 200 (Obj [(''status'', Str ''success'')]))\<rparr>])"
  using pollQueue_timeout [of 200001 "Str ''J1''" "Num 1000"] by simp

subsection \<open>What is charged to the budget\<close>

text \<open>
  C2, as stated, on a run. The first status query takes 10 ms and is answered with
  \<^verbatim>\<open>queued\<close>; the poll interval is 200000 ms. The next iteration gives up with
  \<^verbatim>\<open>DocsBuildTimeout\<close> without sending the second query: its accumulator is above the
  budget. Had it been the 10 ms of the query alone, the second query would have been sent
  and answered with \<^verbatim>\<open>success\<close>, as the second equation shows.
\<close>

theorem pollQueue_sleep_counted_counterexample:
  "pollQueue (Str ''J1'') (Num 200000) 0
       (world0 [\<lparr>latency = 10, reply = Some (AxiosResponse 200 (Obj [(''status'', Str ''queued'')]))\<rparr>,
                \<lparr>latency = 5, reply = Some (AxiosResponse 200 (Obj [(''status'', Str ''success'')]))\<rparr>])
     = Some (Inr (Failure (Str ''DocsBuildTimeout'') timeout_message),
             \<lparr>now = 200010,
              net = [\<lparr>latency = 5, reply = Some (AxiosResponse 200 (Obj [(''status'', Str ''success'')]))\<rparr>],
              lags = [], requests = [(''GET'', ''/api/docs/poll/J1'')], warnings = []\<rparr>)
   \<and> pollQueue (Str ''J1'') (Num 200000) (0 + 10)
        \<lparr>now = 200010,
         net = [\<lparr>latency = 5, reply = Some (AxiosResponse 200 (Obj [(''status'', Str ''success'')]))\<rparr>],
         lags = [], requests = [(''GET'', ''/api/docs/poll/J1'')], warnings = []\<rparr>
     = Some (Inr Success,
             \<lparr>now = 200015, net = [], lags = [],
              requests = [(''GET'', ''/api/docs/poll/J1''), (''GET'', ''/api/docs/poll/J1'')],
              warnings = []\<rparr>)"
  by (simp add: pollQueue.simps POLL_TIMEOUT_def poll_request_def axios_request_def world0_def
      get_prop_def sleep_def sleep_duration_def)

text \<open>
  C2, amended: when an iteration within the budget observes \<^verbatim>\<open>queued\<close>, the next
  iteration runs with the accumulator increased by the time between the clock reading
  taken before the status query and the one taken after the sleep, that is by the duration
  of the query plus the duration of the sleep. The sleep is counted, and it lasts no less
  than the delay of the timer.
\<close>

theorem pollQueue_queued_elapsed:
  assumes "timeElapsed \<le> 200000"
    and "to_string jobId = Inr s"
    and "net w = ev # rest"
    and "reply ev = Some r"
    and "200 \<le> status r" and "status r < 300"
    and "field (data r) ''status'' = Str ''queued''"
  shows "pollQueue jobId pollInterval timeElapsed w
           = pollQueue jobId pollInterval
               (timeElapsed + (int (latency ev) + sleep_duration pollInterval w))
               (sleep pollInterval
                  (w\<lparr>now := now w + int (latency ev), net := rest,
                     requests := requests w @ [(''GET'', ''/api/docs/poll/'' @ s)]\<rparr>))
         \<and> timer_delay pollInterval \<le> sleep_duration pollInterval w"
proof -
  let ?w1 = "w\<lparr>now := now w + int (latency ev), net := rest,
                requests := requests w @ [(''GET'', ''/api/docs/poll/'' @ s)]\<rparr>"
  have req: "poll_request jobId w = Some (Inr r, ?w1)"
    using assms by (simp add: poll_request_sent)
  have st: "get_prop (data r) ''status'' = Inr (Str ''queued'')"
    using assms(7) field_not_nullish [of "data r" "''status''"] by (simp add: get_prop_def)
  have clock: "now (sleep pollInterval ?w1) - now w = int (latency ev) + sleep_duration pollInterval w"
    by (simp add: sleep_def sleep_duration_def)
  have step: "pollQueue jobId pollInterval timeElapsed w
          = pollQueue jobId pollInterval (timeElapsed + now (sleep pollInterval ?w1) - now w)
              (sleep pollInterval ?w1)"
    using assms(1) by (subst pollQueue.simps) (simp add: POLL_TIMEOUT_def req st Let_def)
  have eq: "timeElapsed + now (sleep pollInterval ?w1) - now w
                   = timeElapsed + (int (latency ev) + sleep_duration pollInterval w)"
    using clock by simp
  have lb: "timer_delay pollInterval \<le> sleep_duration pollInterval w"
    by (simp add: sleep_duration_def)
  from step have "pollQueue jobId pollInterval timeElapsed w
          = pollQueue jobId pollInterval
              (timeElapsed + (int (latency ev) + sleep_duration pollInterval w))
              (sleep pollInterval ?w1)"
    by (simp only: eq)
  with lb show ?thesis by (intro conjI)
qed

theorem pollQueue_queued_elapsed_witness:
  "pollQueue (Str ''J1'') (Num 1000) 0
       (world0 [\<lparr>latency = 10, reply = Some (AxiosResponse 200 (Obj [(''status'', Str ''queued'')]))\<rparr>,
                \<lparr>latency = 5, reply = Some (AxiosResponse 200 (Obj [(''status'', Str ''success'')]))\<rparr>])
     = pollQueue (Str ''J1'') (Num 1000) 1010
         \<lparr>now = 1010,
          net = [\<lparr>latency = 5, reply = Some (AxiosResponse 200 (Obj [(''status'', Str ''success'')]))\<rparr>],
          lags = [], requests = [(''GET'', ''/api/docs/poll/J1'')], warnings = []\<rparr>"
  using pollQueue_queued_elapsed
          [of 0 "Str ''J1''" "''J1''"
              "world0 [\<lparr>latency = 10, reply = Some (AxiosResponse 200 (Obj [(''status'', Str ''queued'')]))\<rparr>,
                       \<lparr>latency = 5, reply = Some (AxiosResponse 200 (Obj [(''status'', Str ''success'')]))\<rparr>]"
              "\<lparr>latency = 10, reply = Some (AxiosResponse 200 (Obj [(''status'', Str ''queued'')]))\<rparr>"
              "[\<lparr>latency = 5, reply = Some (AxiosResponse 200 (Obj [(''status'', Str ''success'')]))\<rparr>]"
              "AxiosResponse 200 (Obj [(''status'', Str ''queued'')])" "Num 1000"]
  by (simp add: world0_def sleep_def sleep_duration_def)

subsection \<open>Transport failures\<close>

text \<open>
  C5: when a status query sent within the budget fails in transport (no response, or a
  response whose status is not 2xx), \<open>pollQueue\<close> returns a failure whose code is
  \<^verbatim>\<open>UNEXPECTED_DOCS_POLL_FAILURE\<close>. Its message is the empty string when there is no
  response, the fixed "removed from queue" text on a 404, and otherwise the status code, a
  space and the serialised body (nothing after the space when the body is falsy).
\<close>

theorem pollQueue_transport_failure:
  assumes "timeElapsed \<le> 200000"
    and "to_string jobId = Inr s"
    and "net w = ev # rest"
    and "\<forall>r. reply ev = Some r \<longrightarrow> \<not> (200 \<le> status r \<and> status r < 300)"
  shows "\<exists>m. pollQueue jobId pollInterval timeElapsed w
               = Some (Inr (Failure (Str ''UNEXPECTED_DOCS_POLL_FAILURE'') m),
                       w\<lparr>now := now w + int (latency ev), net := rest,
                         requests := requests w @ [(''GET'', ''/api/docs/poll/'' @ s)]\<rparr>)
           \<and> (case reply ev of
                 None \<Rightarrow> m = []
               | Some r \<Rightarrow>
                   if status r = 404 then m = removed_from_queue_message
                   else if truthy (data r)
                     then \<exists>body. JSON_stringify (data r) = Some body
                                  \<and> m = show_int (status r) @ '' '' @ body
                     else m = show_int (status r) @ '' '')"
proof -
  let ?w1 = "w\<lparr>now := now w + int (latency ev), net := rest,
                requests := requests w @ [(''GET'', ''/api/docs/poll/'' @ s)]\<rparr>"
  have req: "poll_request jobId w = Some (Inl (AxiosError (reply ev)), ?w1)"
    using assms(2,3,4) by (auto simp: poll_request_sent split: option.splits)
  have run: "pollQueue jobId pollInterval timeElapsed w
               = Some (Inr (Failure (Str ''UNEXPECTED_DOCS_POLL_FAILURE'')
                              (poll_catch_message (AxiosError (reply ev)))), ?w1)"
    using assms(1) by (subst pollQueue.simps) (simp add: POLL_TIMEOUT_def req)
  have msg: "case reply ev of
               None \<Rightarrow> poll_catch_message (AxiosError (reply ev)) = []
             | Some r \<Rightarrow>
                 if status r = 404
                 then poll_catch_message (AxiosError (reply ev)) = removed_from_queue_message
                 else if truthy (data r)
                   then \<exists>body. JSON_stringify (data r) = Some body
                          \<and> poll_catch_message (AxiosError (reply ev))
                              = show_int (status r) @ '' '' @ body
                   else poll_catch_message (AxiosError (reply ev)) = show_int (status r) @ '' ''"
    by (auto simp: poll_catch_message_def JSON_stringify_None_iff split: option.splits)
  from run msg show ?thesis by blast
qed

theorem pollQueue_transport_failure_witness:
  "pollQueue (Str ''J1'') (Num 1000) 0
       (world0 [\<lparr>latency = 7, reply = Some (AxiosResponse 404 (Str ''Not Found''))\<rparr>])
     = Some (Inr (Failure (Str ''UNEXPECTED_DOCS_POLL_FAILURE'') removed_from_queue_message),
             \<lparr>now = 7, net = [], lags = [],
              requests = [(''GET'', ''/api/docs/poll/J1'')], warnings = []\<rparr>)
   \<and> pollQueue (Str ''J1'') (Num 1000) 0
       (world0 [\<lparr>latency = 7, reply = Some (AxiosResponse 500 (Obj [(''error'', Str ''down'')]))\<rparr>])
     = Some (Inr (Failure (Str ''UNEXPECTED_DOCS_POLL_FAILURE'')
                    (''500 {'' @ [CHR 0x22] @ ''error'' @ [CHR 0x22] @ '':''
                     @ [CHR 0x22] @ ''down'' @ [CHR 0x22] @ ''}'')),
             \<lparr>now = 7, net = [], lags = [],
              requests = [(''GET'', ''/api/docs/poll/J1'')], warnings = []\<rparr>)
   \<and> pollQueue (Str ''J1'') (Num 1000) 0 (world0 [\<lparr>latency = 7, reply = None\<rparr>])
     = Some (Inr (Failure (Str ''UNEXPECTED_DOCS_POLL_FAILURE'') []),
             \<lparr>now = 7, net = [], lags = [],
              requests = [(''GET'', ''/api/docs/poll/J1'')], warnings = []\<rparr>)"
  using pollQueue_transport_failure
          [of 0 "Str ''J1''" "''J1''"
              "world0 [\<lparr>latency = 7, reply = Some (AxiosResponse 404 (Str ''Not Found''))\<rparr>]"
              "\<lparr>latency = 7, reply = Some (AxiosResponse 404 (Str ''Not Found''))\<rparr>" "[]" "Num 1000"]
        pollQueue_transport_failure
          [of 0 "Str ''J1''" "''J1''"
              "world0 [\<lparr>latency = 7, reply = Some (AxiosResponse 500 (Obj [(''error'', Str ''down'')]))\<rparr>]"
              "\<lparr>latency = 7, reply = Some (AxiosResponse 500 (Obj [(''error'', Str ''down'')]))\<rparr>"
              "[]" "Num 1000"]
        pollQueue_transport_failure
          [of 0 "Str ''J1''" "''J1''" "world0 [\<lparr>latency = 7, reply = None\<rparr>]"
              "\<lparr>latency = 7, reply = None\<rparr>" "[]" "Num 1000"]
  by (simp add: world0_def show_int_def json_quote_def json_escape_def)

subsection \<open>Unknown statuses\<close>



section \<open>Properties of the trigger and of the synchronous build\<close>

text \<open>
  C10, as stated, on two error responses that carry a body. The body
  \<^verbatim>\<open>{name: "PackageVersionMismatchError", extra: "1.0.0"}\<close> makes \<open>getErrorMessage\<close>
  throw inside the \<^verbatim>\<open>catch\<close> block: both functions reject with the TypeError and return
  no failure. The body \<^verbatim>\<open>false\<close> is present but falsy: both functions answer with the
  code \<^verbatim>\<open>UNEXPECTED_DOCS_TRIGGER_FAILURE\<close>, which the claim keeps for a response without
  any body.
\<close>

theorem trigger_failure_counterexample:
  "map_option fst (getPackageDocs ''react'' ''18.0.0'' False (world0 [\<lparr>latency = 9, reply = Some (AxiosResponse 404 (Obj [(''name'', Str ''PackageVersionMismatchError''), (''extra'', Str ''1.0.0'')]))\<rparr>]))
     = Some (Inl TypeError)
   \<and> map_option fst (getPackageDocsSync ''react'' ''18.0.0'' False (world0 [\<lparr>latency = 9, reply = Some (AxiosResponse 404 (Obj [(''name'', Str ''PackageVersionMismatchError''), (''extra'', Str ''1.0.0'')]))\<rparr>]))
     = Some (Inl TypeError)
   \<and> map_option fst (getPackageDocs ''react'' ''18.0.0'' False (world0 [\<lparr>latency = 9, reply = Some (AxiosResponse 500 (Bool False))\<rparr>]))
     = Some (Inr (Failure (Str ''UNEXPECTED_DOCS_TRIGGER_FAILURE'') []))
   \<and> map_option fst (getPackageDocsSync ''react'' ''18.0.0'' False (world0 [\<lparr>latency = 9, reply = Some (AxiosResponse 500 (Bool False))\<rparr>]))
     = Some (Inr (Failure (Str ''UNEXPECTED_DOCS_TRIGGER_FAILURE'') []))"
  by (simp add: getPackageDocs_def getPackageDocsSync_def axios_request_def response_data_def
      world0_def getErrorMessage_def get_prop_def)

text \<open>
  C10, amended: when the trigger request, or the build request, fails in transport, both
  functions answer alike, and always settle. With a truthy response body they apply
  \<open>getErrorMessage\<close> to the body: when it returns a message, the result is a failure whose
  code is the \<^verbatim>\<open>name\<close> property of the body as it is (\<^verbatim>\<open>undefined\<close> when the body has
  none) and whose message is that message; when it throws, they reject with what it threw.
  Without a response, or with a falsy body (\<^verbatim>\<open>undefined\<close>, \<^verbatim>\<open>null\<close>, \<^verbatim>\<open>false\<close>, \<^verbatim>\<open>0\<close>,
  the empty string), the result is a failure with code \<^verbatim>\<open>UNEXPECTED_DOCS_TRIGGER_FAILURE\<close>
  and the empty message.
\<close>

theorem trigger_failure_outcome:
  assumes "net w = ev # rest"
    and "\<forall>r. reply ev = Some r \<longrightarrow> \<not> (200 \<le> status r \<and> status r < 300)"
  shows "(\<forall>r. reply ev = Some r \<and> truthy (data r) \<longrightarrow>
            map_option fst (getPackageDocs pkg pkgVersion force w)
              = Some (case fst (getErrorMessage (data r) w) of
                        Inl e \<Rightarrow> Inl e
                      | Inr m \<Rightarrow> Inr (Failure (field (data r) ''name'') m))
          \<and> map_option fst (getPackageDocsSync pkg pkgVersion force w)
              = Some (case fst (getErrorMessage (data r) w) of
                        Inl e \<Rightarrow> Inl e
                      | Inr m \<Rightarrow> Inr (Failure (field (data r) ''name'') m)))
       \<and> (reply ev = None \<or> (\<exists>r. reply ev = Some r \<and> \<not> truthy (data r)) \<longrightarrow>
            map_option fst (getPackageDocs pkg pkgVersion force w)
              = Some (Inr (Failure (Str ''UNEXPECTED_DOCS_TRIGGER_FAILURE'') []))
          \<and> map_option fst (getPackageDocsSync pkg pkgVersion force w)
              = Some (Inr (Failure (Str ''UNEXPECTED_DOCS_TRIGGER_FAILURE'') [])))"
proof -
  let ?path = "(if pkgVersion \<noteq> [] then pkg @ ''/'' @ pkgVersion else pkg)
                 @ (if force then ''?force=true'' else [])"
  let ?after = "\<lambda>url. w\<lparr>now := now w + int (latency ev), net := rest,
                            requests := requests w @ [(''POST'', url)]\<rparr>"
  have req: "axios_request ''POST'' url w = Some (Inl (AxiosError (reply ev)), ?after url)" for url
    using assms by (auto simp: axios_request_def split: option.splits)
  have docs: "getPackageDocs pkg pkgVersion force w
                = (if truthy (response_data (AxiosError (reply ev))) then
                     (case getErrorMessage (response_data (AxiosError (reply ev)))
                             (?after (''/api/docs/trigger/'' @ ?path)) of
                        (Inl e, w2) \<Rightarrow> Some (Inl e, w2)
                      | (Inr m, w2) \<Rightarrow>
                          Some (Inr (Failure (field (response_data (AxiosError (reply ev))) ''name'') m), w2))
                   else Some (Inr (Failure (Str ''UNEXPECTED_DOCS_TRIGGER_FAILURE'') []),
                              ?after (''/api/docs/trigger/'' @ ?path)))"
    unfolding getPackageDocs_def Let_def by (simp only: req append_assoc option.case prod.case sum.case)
  have sync: "getPackageDocsSync pkg pkgVersion force w
                = (if truthy (response_data (AxiosError (reply ev))) then
                     (case getErrorMessage (response_data (AxiosError (reply ev)))
                             (?after (''/api/docs/build/'' @ ?path)) of
                        (Inl e, w2) \<Rightarrow> Some (Inl e, w2)
                      | (Inr m, w2) \<Rightarrow>
                          Some (Inr (Failure (field (response_data (AxiosError (reply ev))) ''name'') m), w2))
                   else Some (Inr (Failure (Str ''UNEXPECTED_DOCS_TRIGGER_FAILURE'') []),
                              ?after (''/api/docs/build/'' @ ?path)))"
    unfolding getPackageDocsSync_def Let_def by (simp only: req append_assoc option.case prod.case sum.case)
  have body: "map_option fst
                (case getErrorMessage d w' of
                   (Inl e, w2) \<Rightarrow> Some (Inl e, w2)
                 | (Inr m, w2) \<Rightarrow> Some (Inr (Failure (field d ''name'') m), w2))
              = Some (case fst (getErrorMessage d w) of
                        Inl e \<Rightarrow> Inl e
                      | Inr m \<Rightarrow> Inr (Failure (field d ''name'') m))" for d w'
    using getErrorMessage_value_world [of d w' w]
    by (cases "getErrorMessage d w'") (auto split: sum.splits)
  show ?thesis
  proof (intro conjI allI impI)
    fix r
    assume h: "reply ev = Some r \<and> truthy (data r)"
    then have d: "response_data (AxiosError (reply ev)) = data r"
      by (simp add: response_data_def)
    from h have t: "truthy (data r)"
      by simp
    show "map_option fst (getPackageDocs pkg pkgVersion force w)
            = Some (case fst (getErrorMessage (data r) w) of
                      Inl e \<Rightarrow> Inl e
                    | Inr m \<Rightarrow> Inr (Failure (field (data r) ''name'') m))"
      by (simp only: docs d t if_True body)
    show "map_option fst (getPackageDocsSync pkg pkgVersion force w)
            = Some (case fst (getErrorMessage (data r) w) of
                      Inl e \<Rightarrow> Inl e
                    | Inr m \<Rightarrow> Inr (Failure (field (data r) ''name'') m))"
      by (simp only: sync d t if_True body)
  next
    assume "reply ev = None \<or> (\<exists>r. reply ev = Some r \<and> \<not> truthy (data r))"
    then have f: "\<not> truthy (response_data (AxiosError (reply ev)))"
      by (auto simp: response_data_def)
    show "map_option fst (getPackageDocs pkg pkgVersion force w)
            = Some (Inr (Failure (Str ''UNEXPECTED_DOCS_TRIGGER_FAILURE'') []))"
      by (simp only: docs f if_False option.map fst_conv)
    show "map_option fst (getPackageDocsSync pkg pkgVersion force w)
            = Some (Inr (Failure (Str ''UNEXPECTED_DOCS_TRIGGER_FAILURE'') []))"
      by (simp only: sync f if_False option.map fst_conv)
  qed
qed

theorem trigger_failure_outcome_witness:
  "map_option fst (getPackageDocs ''react'' ''18.0.0'' True (world0 [\<lparr>latency = 9, reply = Some (AxiosResponse 404 (Obj [(''name'', Str ''PackageNotFoundError'')]))\<rparr>]))
     = Some (Inr (Failure (Str ''PackageNotFoundError'') package_not_found_message))
   \<and> map_option fst (getPackageDocsSync ''react'' ''18.0.0'' True (world0 [\<lparr>latency = 9, reply = Some (AxiosResponse 404 (Obj [(''name'', Str ''PackageNotFoundError'')]))\<rparr>]))
     = Some (Inr (Failure (Str ''PackageNotFoundError'') package_not_found_message))
   \<and> map_option fst (getPackageDocs ''react'' [] False (world0 [\<lparr>latency = 9, reply = Some (AxiosResponse 500 (Obj [(''message'', Str ''down'')]))\<rparr>]))
     = Some (Inr (Failure Undefined []))
   \<and> map_option fst (getPackageDocsSync ''react'' [] False (world0 [\<lparr>latency = 9, reply = Some (AxiosResponse 404 (Obj [(''name'', Str ''PackageVersionMismatchError''), (''extra'', Str ''1.0.0'')]))\<rparr>]))
     = Some (Inl TypeError)
   \<and> map_option fst (getPackageDocs ''react'' [] False (world0 [\<lparr>latency = 9, reply = None\<rparr>]))
     = Some (Inr (Failure (Str ''UNEXPECTED_DOCS_TRIGGER_FAILURE'') []))"
  using trigger_failure_outcome
          [of "world0 [\<lparr>latency = 9, reply = Some (AxiosResponse 404 (Obj [(''name'', Str ''PackageNotFoundError'')]))\<rparr>]"
              "\<lparr>latency = 9, reply = Some (AxiosResponse 404 (Obj [(''name'', Str ''PackageNotFoundError'')]))\<rparr>" "[]" "''react''" "''18.0.0''" True]
        trigger_failure_outcome
          [of "world0 [\<lparr>latency = 9, reply = Some (AxiosResponse 500 (Obj [(''message'', Str ''down'')]))\<rparr>]"
              "\<lparr>latency = 9, reply = Some (AxiosResponse 500 (Obj [(''message'', Str ''down'')]))\<rparr>" "[]" "''react''" "[]" False]
        trigger_failure_outcome
          [of "world0 [\<lparr>latency = 9, reply = Some (AxiosResponse 404 (Obj [(''name'', Str ''PackageVersionMismatchError''), (''extra'', Str ''1.0.0'')]))\<rparr>]"
              "\<lparr>latency = 9, reply = Some (AxiosResponse 404 (Obj [(''name'', Str ''PackageVersionMismatchError''), (''extra'', Str ''1.0.0'')]))\<rparr>" "[]" "''react''" "[]" False]
        trigger_failure_outcome
          [of "world0 [\<lparr>latency = 9, reply = None\<rparr>]" "\<lparr>latency = 9, reply = None\<rparr>" "[]" "''react''" "[]" False]
  by (simp add: world0_def getErrorMessage_def get_prop_def)

section \<open>Properties of the worker\<close>



text \<open>
  C7: at a tick of the watchdog in a running process, the process exits (with code 1)
  exactly when more than 300000 ms have passed since \<^verbatim>\<open>workerActiveTime\<close>, and is left as
  it was otherwise. Every job invocation sets \<^verbatim>\<open>workerActiveTime\<close> to the clock at the
  start of the invocation, before the time of the build passes.
\<close>

theorem watchdog_idle_threshold:
  assumes "exit_code s = None"
  shows "(exit_code (watchdog s) = Some 1 \<longleftrightarrow> clock s - workerActiveTime s > 300000)
       \<and> (clock s - workerActiveTime s \<le> 300000 \<longrightarrow> watchdog s = s)
       \<and> workerActiveTime (snd (snd (handler generateDocsForPackage j s))) = clock s
       \<and> clock (snd (snd (handler generateDocsForPackage j s)))
           = clock s + int (fst (generateDocsForPackage (field (Obj (jobData j)) ''packageJSON'')
                                   (Obj [(''force'', field (Obj (jobData j)) ''force'')])))"
  using assms
  by (auto simp: watchdog_def handler_def Let_def split: prod.splits sum.splits)

theorem watchdog_idle_threshold_witness:
  "exit_code (watchdog \<lparr>clock = 400001, workerActiveTime = 100000, exit_code = None, console = []\<rparr>)
     = Some 1
   \<and> watchdog \<lparr>clock = 400000, workerActiveTime = 100000, exit_code = None, console = []\<rparr>
     = \<lparr>clock = 400000, workerActiveTime = 100000, exit_code = None, console = []\<rparr>
   \<and> workerActiveTime
       (snd (snd (handler (\<lambda>packageJSON options. (7, Inr (Str ''docs'')))
                    \<lparr>jobData = [(''packageJSON'', Obj []), (''force'', Bool False)]\<rparr>
                    \<lparr>clock = 400000, workerActiveTime = 100000, exit_code = None, console = []\<rparr>)))
     = 400000
   \<and> clock
       (snd (snd (handler (\<lambda>packageJSON options. (7, Inr (Str ''docs'')))
                    \<lparr>jobData = [(''packageJSON'', Obj []), (''force'', Bool False)]\<rparr>
                    \<lparr>clock = 400000, workerActiveTime = 100000, exit_code = None, console = []\<rparr>)))
     = 400007"
  using watchdog_idle_threshold
          [of "\<lparr>clock = 400001, workerActiveTime = 100000, exit_code = None, console = []\<rparr>"]
        watchdog_idle_threshold
          [of "\<lparr>clock = 400000, workerActiveTime = 100000, exit_code = None, console = []\<rparr>"
              "\<lambda>packageJSON options. (7, Inr (Str ''docs''))"
              "\<lparr>jobData = [(''packageJSON'', Obj []), (''force'', Bool False)]\<rparr>"]
  by simp

end
